theory Spec2Isabelle
  imports Main
begin

section \<open>Exceptions\<close>

text \<open>
  The exception classes of \<^verbatim>\<open>aiosomecomfort/__init__.py\<close>, the transport's
  \<^verbatim>\<open>aiohttp.ClientError\<close>, Home Assistant's \<^verbatim>\<open>UpdateFailed\<close>, and one constructor for
  every exception outside these hierarchies (\<^verbatim>\<open>asyncio.TimeoutError\<close>, \<^verbatim>\<open>KeyError\<close>, ...).
  Only the class of an exception is kept; its message is not.
\<close>

datatype exn =
    SomeComfortError
  | ConnectionTimeout
  | ConnectionError
  | AuthError
  | APIError
  | APIRateLimited
  | SessionTimedOut
  | ServiceUnavailable
  | UnexpectedResponse
  | UnauthorizedError
  | ClientError
  | OtherException
  | UpdateFailed

text \<open>\<^verbatim>\<open>isinstance(e, SomeComfortError)\<close>: the ten classes of the client library.\<close>

fun is_SomeComfortError :: "exn \<Rightarrow> bool" where
  "is_SomeComfortError ClientError = False"
| "is_SomeComfortError OtherException = False"
| "is_SomeComfortError UpdateFailed = False"
| "is_SomeComfortError _ = True"

section \<open>Transport\<close>

text \<open>
  A parsed JSON document. The body of a response is taken to be well formed, so that
  \<^verbatim>\<open>resp.json()\<close> returns it.
\<close>

datatype json =
    JNull
  | JBool bool
  | JInt int
  | JStr string
  | JArr "json list"
  | JObj "(string \<times> json) list"

text \<open>
  What the client reads of an \<^verbatim>\<open>aiohttp.ClientResponse\<close>: \<open>auth_cookie\<close> is
  \<^verbatim>\<open>resp.cookies\<close> at \<^verbatim>\<open>AUTH_COOKIE\<close> (\<open>None\<close> when the cookie is absent, otherwise its
  value), \<open>history\<close> is \<^verbatim>\<open>len(resp.history)\<close>.
\<close>

record response =
  status :: int
  content_type :: string
  auth_cookie :: "string option"
  history :: nat
  body :: json

datatype outcome =
    Response response
  | TransportClientError
  | TransportOtherError

text \<open>
  The environment is a script: \<open>respond E n\<close> is the outcome of the \<open>n\<close>-th call on the
  \<^verbatim>\<open>aiohttp\<close> session and \<open>latency E n\<close> the time it takes, in microseconds.
\<close>

record env =
  respond :: "nat \<Rightarrow> outcome"
  latency :: "nat \<Rightarrow> nat"

section \<open>The client\<close>

text \<open>
  The fields of \<^verbatim>\<open>AIOSomeComfort\<close> that the session and request logic reads or writes,
  the clock \<open>now\<close> (microseconds) and the number \<open>calls\<close> of transport calls made so far.
  \<open>hdr_content_type\<close> is \<^verbatim>\<open>self._headers["Content-Type"]\<close>. The cookie jar belongs to the
  \<^verbatim>\<open>aiohttp\<close> session, whose answers the script gives.
\<close>

record client =
  username :: string
  password :: string
  null_cookie_count :: int
  next_login :: int
  is_authenticated :: bool
  hdr_content_type :: "string option"
  now :: int
  calls :: nat

definition MIN_LOGIN_TIME :: int where
  "MIN_LOGIN_TIME = 10 * 60 * 1000000"

definition MAX_LOGIN_ATTEMPTS :: int where
  "MAX_LOGIN_ATTEMPTS = 3"

definition DEFAULT_RETRY_COUNT :: int where
  "DEFAULT_RETRY_COUNT = 3"

definition RETRY_BACKOFF_BASE :: int where
  "RETRY_BACKOFF_BASE = 2"

text \<open>One call of \<^verbatim>\<open>self._session.post\<close> or \<^verbatim>\<open>self._session.get\<close>.\<close>

definition session_call :: "env \<Rightarrow> client \<Rightarrow> client \<times> outcome" where
  "session_call E s =
     (s\<lparr>now := now s + int (latency E (calls s)), calls := Suc (calls s)\<rparr>,
      respond E (calls s))"

definition set_null_count :: "client \<Rightarrow> client" where
  "set_null_count s =
     (let s1 = s\<lparr>null_cookie_count := null_cookie_count s + 1, is_authenticated := False\<rparr>
      in if null_cookie_count s1 \<ge> MAX_LOGIN_ATTEMPTS
         then s1\<lparr>next_login := now s1 + MIN_LOGIN_TIME\<rparr>
         else s1)"

text \<open>The body of \<^verbatim>\<open>login\<close>, before the decorator.\<close>

definition login_body :: "env \<Rightarrow> client \<Rightarrow> client \<times> (exn + unit)" where
  "login_body E s =
     (let s1 = s\<lparr>hdr_content_type := Some ''application/x-www-form-urlencoded''\<rparr> in
      if next_login s1 > now s1 then (s1, Inl APIRateLimited)
      else
        (case session_call E s1 of
           (s2, TransportClientError) \<Rightarrow> (s2, Inl ClientError)
         | (s2, TransportOtherError) \<Rightarrow> (s2, Inl OtherException)
         | (s2, Response resp) \<Rightarrow>
             if status resp = 401 then (set_null_count s2, Inl AuthError)
             else if status resp \<noteq> 200 then (s2, Inl ConnectionError)
             else
               (case session_call E (s2\<lparr>hdr_content_type := Some ''application/json''\<rparr>) of
                  (s3, TransportClientError) \<Rightarrow> (s3, Inl ClientError)
                | (s3, TransportOtherError) \<Rightarrow> (s3, Inl OtherException)
                | (s3, Response resp2) \<Rightarrow>
                    if auth_cookie resp2 = Some '''' then (set_null_count s3, Inl AuthError)
                    else if status resp2 = 401 then (set_null_count s3, Inl AuthError)
                    else if status resp2 \<noteq> 200 then (s3, Inl ConnectionError)
                    else (s3\<lparr>null_cookie_count := 0, is_authenticated := True\<rparr>, Inr ()))))"

text \<open>The decorator \<^verbatim>\<open>_convert_errors\<close>.\<close>

definition convert_errors :: "client \<times> (exn + 'a) \<Rightarrow> client \<times> (exn + 'a)" where
  "convert_errors r =
     (case r of
        (s, Inl e) \<Rightarrow> if e = ClientError then (s, Inl ConnectionError) else (s, Inl e)
      | (s, Inr v) \<Rightarrow> (s, Inr v))"

definition login :: "env \<Rightarrow> client \<Rightarrow> client \<times> (exn + unit)" where
  "login E s = convert_errors (login_body E s)"

definition ensure_authenticated :: "env \<Rightarrow> client \<Rightarrow> client \<times> (exn + unit)" where
  "ensure_authenticated E s =
     (if \<not> is_authenticated s then login E s else (s, Inr ()))"

text \<open>
  What \<^verbatim>\<open>_request_json\<close> returns: the parsed body of a JSON response, or the response
  itself when its content type is \<^verbatim>\<open>application/octet-stream\<close>.
\<close>

datatype reply = Json json | Raw response

definition request_json :: "env \<Rightarrow> client \<Rightarrow> client \<times> (exn + reply)" where
  "request_json E s =
     (case session_call E s of
        (s1, TransportClientError) \<Rightarrow> (s1, Inl ClientError)
      | (s1, TransportOtherError) \<Rightarrow> (s1, Inl OtherException)
      | (s1, Response resp) \<Rightarrow>
          if status resp = 200
             \<and> content_type resp \<in> set [''application/json'', ''application/octet-stream'']
          then (s1\<lparr>null_cookie_count := 0\<rparr>,
                Inr (if content_type resp = ''application/json''
                     then Json (body resp) else Raw resp))
          else if status resp = 401 then (s1\<lparr>is_authenticated := False\<rparr>, Inl UnauthorizedError)
          else if status resp = 403 then (s1\<lparr>is_authenticated := False\<rparr>, Inl UnauthorizedError)
          else if status resp \<in> set [500, 502, 503] \<or> history resp > 0
          then (s1, Inl ServiceUnavailable)
          else (s1, Inl UnexpectedResponse))"

text \<open>
  \<^verbatim>\<open>if attempt < retries - 1: await asyncio.sleep(RETRY_BACKOFF_BASE ** attempt)\<close>: the
  sleep moves the clock.
\<close>

definition backoff_sleep :: "int \<Rightarrow> nat \<Rightarrow> client \<Rightarrow> client" where
  "backoff_sleep retries attempt s =
     (if int attempt < retries - 1
      then s\<lparr>now := now s + RETRY_BACKOFF_BASE ^ attempt * 1000000\<rparr>
      else s)"

text \<open>
  The \<^verbatim>\<open>except\<close> clauses of one attempt of \<^verbatim>\<open>_request_json_with_retry\<close>, for an exception
  \<open>e\<close> raised in the \<^verbatim>\<open>try\<close> block: \<open>Inr le\<close> goes on to the next attempt with
  \<^verbatim>\<open>last_error\<close> \<open>le\<close>, \<open>Inl x\<close> leaves the function with the exception \<open>x\<close>. An exception
  raised inside a handler is not caught by the clauses that follow it.
\<close>

definition handle_error ::
  "env \<Rightarrow> int \<Rightarrow> nat \<Rightarrow> exn option \<Rightarrow> client \<Rightarrow> exn \<Rightarrow> client \<times> (exn + exn option)" where
  "handle_error E retries attempt last_error s e =
     (if e = UnauthorizedError then
        (case login E (s\<lparr>is_authenticated := False\<rparr>) of
           (s1, Inr _) \<Rightarrow> (s1, Inr last_error)
         | (s1, Inl auth_err) \<Rightarrow>
             if auth_err = AuthError \<or> auth_err = APIRateLimited
             then (backoff_sleep retries attempt s1, Inr (Some auth_err))
             else (s1, Inl auth_err))
      else if e = ServiceUnavailable then (backoff_sleep retries attempt s, Inr (Some e))
      else if e = ConnectionError then (backoff_sleep retries attempt s, Inr (Some e))
      else (s, Inl e))"

text \<open>
  The loop \<^verbatim>\<open>for attempt in range(retries)\<close> over the attempts that are left, and what
  follows it.
\<close>

fun retry_loop ::
  "env \<Rightarrow> int \<Rightarrow> exn option \<Rightarrow> nat list \<Rightarrow> client \<Rightarrow> client \<times> (exn + reply)" where
  "retry_loop E retries last_error [] s =
     (s, Inl (case last_error of Some e \<Rightarrow> e | None \<Rightarrow> SomeComfortError))"
| "retry_loop E retries last_error (attempt # rest) s =
     (case ensure_authenticated E s of
        (s1, Inl e) \<Rightarrow>
          (case handle_error E retries attempt last_error s1 e of
             (s2, Inl x) \<Rightarrow> (s2, Inl x)
           | (s2, Inr le) \<Rightarrow> retry_loop E retries le rest s2)
      | (s1, Inr _) \<Rightarrow>
          (case request_json E s1 of
             (s2, Inr v) \<Rightarrow> (s2, Inr v)
           | (s2, Inl e) \<Rightarrow>
               (case handle_error E retries attempt last_error s2 e of
                  (s3, Inl x) \<Rightarrow> (s3, Inl x)
                | (s3, Inr le) \<Rightarrow> retry_loop E retries le rest s3)))"

definition request_json_with_retry :: "env \<Rightarrow> int \<Rightarrow> client \<Rightarrow> client \<times> (exn + reply)" where
  "request_json_with_retry E retries s = retry_loop E retries None [0..<nat retries] s"

text \<open>
  Vocabulary for the results of the executor. \<open>reply_of resp\<close> is what \<^verbatim>\<open>_request_json\<close>
  returns for a response it accepts. \<open>answered_200 E s v\<close>: the last transport call made
  in state \<open>s\<close> was answered with status 200, and \<open>v\<close> is the reply of that response.
  \<open>terminal_errors\<close> are the exception classes a caller of the executor can see.
\<close>

definition reply_of :: "response \<Rightarrow> reply" where
  "reply_of resp =
     (if content_type resp = ''application/json'' then Json (body resp) else Raw resp)"

definition answered_200 :: "env \<Rightarrow> client \<Rightarrow> reply \<Rightarrow> bool" where
  "answered_200 E s v =
     (0 < calls s \<and>
      (case respond E (calls s - 1) of
         Response resp \<Rightarrow> status resp = 200 \<and> v = reply_of resp
       | _ \<Rightarrow> False))"

definition terminal_errors :: "exn set" where
  "terminal_errors =
     {AuthError, APIRateLimited, ConnectionError, ServiceUnavailable, UnexpectedResponse,
      SomeComfortError, ClientError, OtherException}"

text \<open>
  \<^verbatim>\<open>json_responses.extend(x)\<close> appends the items that iterating \<open>x\<close> yields: the elements of
  an array, the keys of an object, the characters of a string; any other value is not
  iterable and raises \<^verbatim>\<open>TypeError\<close> (\<open>None\<close>).
\<close>

fun json_items :: "json \<Rightarrow> json list option" where
  "json_items (JArr xs) = Some xs"
| "json_items (JObj kvs) = Some (map (\<lambda>kv. JStr (fst kv)) kvs)"
| "json_items (JStr cs) = Some (map (\<lambda>c. JStr [c]) cs)"
| "json_items _ = None"

text \<open>
  The loop over the pages of \<^verbatim>\<open>_get_locations\<close>. It posts on the session itself, without
  \<^verbatim>\<open>_request_json\<close>; any exception in the \<^verbatim>\<open>try\<close> block ends the loop.
\<close>

fun get_locations_loop :: "env \<Rightarrow> nat list \<Rightarrow> json list \<Rightarrow> client \<Rightarrow> client \<times> json list" where
  "get_locations_loop E [] json_responses s = (s, json_responses)"
| "get_locations_loop E (page # pages) json_responses s =
     (case ensure_authenticated E s of
        (s1, Inl e) \<Rightarrow> (s1, json_responses)
      | (s1, Inr _) \<Rightarrow>
          (case session_call E s1 of
             (s2, Response resp) \<Rightarrow>
               if content_type resp = ''application/json''
               then (case json_items (body resp) of
                       None \<Rightarrow> (s2, json_responses)
                     | Some items \<Rightarrow> get_locations_loop E pages (json_responses @ items) s2)
               else get_locations_loop E pages json_responses s2
           | (s2, _) \<Rightarrow> (s2, json_responses)))"

definition get_locations :: "env \<Rightarrow> client \<Rightarrow> client \<times> json list option" where
  "get_locations E s =
     (case get_locations_loop E [1..<5] [] s of
        (s1, json_responses) \<Rightarrow>
          (s1, if json_responses = [] then None else Some json_responses))"

section \<open>The coordinator\<close>

text \<open>
  A device is known by its \<^verbatim>\<open>deviceid\<close> and \<^verbatim>\<open>name\<close>. Its \<^verbatim>\<open>refresh\<close> method is a
  parameter of the model: a function of the device and the client state that either
  raises or returns the value that \<^verbatim>\<open>device.is_alive\<close> has afterwards.
\<close>

record device =
  deviceid :: int
  name :: string

record entry =
  device :: device
  available :: bool

type_synonym snapshot = "int \<rightharpoonup> entry"

type_synonym refresh_fn = "device \<Rightarrow> client \<Rightarrow> client \<times> (exn + bool)"

text \<open>
  The state of \<^verbatim>\<open>MyHoneywellCoordinator\<close> with the client it polls. \<open>data\<close> is the
  \<^verbatim>\<open>self.data\<close> kept by the base class and only read here; \<open>restarts\<close> counts the times
  \<^verbatim>\<open>_async_update_data\<close> has called itself.
\<close>

record coordinator =
  client :: client
  consecutive_errors :: int
  max_consecutive_errors :: int
  data :: "snapshot option"
  restarts :: nat

text \<open>The loop \<^verbatim>\<open>for device in devices\<close> with its own \<^verbatim>\<open>except SomeComfortError\<close>.\<close>

fun refresh_devices ::
  "refresh_fn \<Rightarrow> device list \<Rightarrow> snapshot \<Rightarrow> client \<Rightarrow> client \<times> (exn + snapshot)" where
  "refresh_devices rf [] device_data s = (s, Inr device_data)"
| "refresh_devices rf (d # ds) device_data s =
     (case rf d s of
        (s1, Inr alive) \<Rightarrow>
          refresh_devices rf ds
            (device_data(deviceid d \<mapsto> \<lparr>device = d, available = alive\<rparr>)) s1
      | (s1, Inl ex) \<Rightarrow>
          if is_SomeComfortError ex
          then refresh_devices rf ds
                 (device_data(deviceid d \<mapsto> \<lparr>device = d, available = False\<rparr>)) s1
          else (s1, Inl ex))"

text \<open>The body of the outer \<^verbatim>\<open>try\<close> block, up to the value it returns.\<close>

definition refresh_phase ::
  "env \<Rightarrow> refresh_fn \<Rightarrow> device list \<Rightarrow> client \<Rightarrow> client \<times> (exn + snapshot)" where
  "refresh_phase E rf devices s =
     (case ensure_authenticated E s of
        (s1, Inl ex) \<Rightarrow> (s1, Inl ex)
      | (s1, Inr _) \<Rightarrow> refresh_devices rf devices Map.empty s1)"

text \<open>\<^verbatim>\<open>self.data if self.data else {}\<close>\<close>

definition stale_data :: "coordinator \<Rightarrow> snapshot" where
  "stale_data c = (case data c of Some d \<Rightarrow> d | None \<Rightarrow> Map.empty)"

text \<open>
  \<^verbatim>\<open>_async_update_data\<close> with the body of its \<^verbatim>\<open>try\<close> block as the parameter \<open>phase\<close>:
  the success path and the \<^verbatim>\<open>except\<close> clauses in the order of the source. The function
  calls itself after a successful login in the \<^verbatim>\<open>UnauthorizedError\<close> handler, with
  nothing that limits the depth, so the model takes fuel and \<open>None\<close> stands for a call
  that has not returned within it.
\<close>

fun update_with ::
  "nat \<Rightarrow> env \<Rightarrow> (client \<Rightarrow> client \<times> (exn + snapshot)) \<Rightarrow> coordinator
     \<Rightarrow> (coordinator \<times> (exn + snapshot)) option" where
  "update_with 0 E phase c = None"
| "update_with (Suc k) E phase c =
     (case phase (client c) of
        (s1, Inr device_data) \<Rightarrow>
          Some (c\<lparr>client := s1, consecutive_errors := 0\<rparr>, Inr device_data)
      | (s1, Inl ex) \<Rightarrow>
          if ex = UnauthorizedError then
            (case login E s1 of
               (s2, Inl auth_ex) \<Rightarrow>
                 if auth_ex = AuthError
                 then Some (c\<lparr>client := s2, consecutive_errors := consecutive_errors c + 1\<rparr>,
                            Inl UpdateFailed)
                 else Some (c\<lparr>client := s2\<rparr>, Inl auth_ex)
             | (s2, Inr _) \<Rightarrow>
                 (case update_with k E phase (c\<lparr>client := s2, restarts := Suc (restarts c)\<rparr>) of
                    None \<Rightarrow> None
                  | Some (c1, Inl x) \<Rightarrow>
                      if x = AuthError
                      then Some (c1\<lparr>consecutive_errors := consecutive_errors c1 + 1\<rparr>,
                                 Inl UpdateFailed)
                      else Some (c1, Inl x)
                  | Some (c1, Inr d) \<Rightarrow> Some (c1, Inr d)))
          else if ex = APIRateLimited then
            (let c1 = c\<lparr>client := s1, consecutive_errors := consecutive_errors c + 1\<rparr>
             in Some (c1, Inr (stale_data c1)))
          else if ex = ServiceUnavailable then
            (let c1 = c\<lparr>client := s1, consecutive_errors := consecutive_errors c + 1\<rparr>
             in if consecutive_errors c1 \<ge> max_consecutive_errors c1
                then Some (c1, Inl UpdateFailed)
                else Some (c1, Inr (stale_data c1)))
          else if ex = ConnectionError then
            (let c1 = c\<lparr>client := s1, consecutive_errors := consecutive_errors c + 1\<rparr>
             in if consecutive_errors c1 \<ge> max_consecutive_errors c1
                then Some (c1, Inl UpdateFailed)
                else Some (c1, Inr (stale_data c1)))
          else Some (c\<lparr>client := s1, consecutive_errors := consecutive_errors c + 1\<rparr>,
                     Inl UpdateFailed))"

definition async_update_data ::
  "nat \<Rightarrow> env \<Rightarrow> refresh_fn \<Rightarrow> device list \<Rightarrow> coordinator
     \<Rightarrow> (coordinator \<times> (exn + snapshot)) option" where
  "async_update_data k E rf devices c = update_with k E (refresh_phase E rf devices) c"

section \<open>Vocabulary of the session properties\<close>

text \<open>
  \<open>empty_cookie_login E n\<close>: the script answers a login that starts at call \<open>n\<close> with
  status 200 and then with a verification response whose auth cookie is present and
  empty. \<open>handshake_done E s\<close>: a login started in state \<open>s\<close> is answered with status 200
  at both steps, the second without an empty auth cookie. \<open>after_logins E n s\<close> is the
  state after \<open>n\<close> calls of \<open>login\<close> in a row.
\<close>

definition empty_cookie_login :: "env \<Rightarrow> nat \<Rightarrow> bool" where
  "empty_cookie_login E n =
     ((case respond E n of Response r1 \<Rightarrow> status r1 = 200 | _ \<Rightarrow> False)
      \<and> (case respond E (Suc n) of
           Response r2 \<Rightarrow> auth_cookie r2 = Some '''' | _ \<Rightarrow> False))"

definition handshake_done :: "env \<Rightarrow> client \<Rightarrow> bool" where
  "handshake_done E s =
     ((case respond E (calls s) of Response r1 \<Rightarrow> status r1 = 200 | _ \<Rightarrow> False)
      \<and> (case respond E (Suc (calls s)) of
           Response r2 \<Rightarrow> status r2 = 200 \<and> auth_cookie r2 \<noteq> Some '''' | _ \<Rightarrow> False))"

fun after_logins :: "env \<Rightarrow> nat \<Rightarrow> client \<Rightarrow> client" where
  "after_logins E 0 s = s"
| "after_logins E (Suc n) s = after_logins E n (fst (login E s))"

text \<open>
  \<open>denied_at E n\<close>: call \<open>n\<close> is answered with status 401 or 403. \<open>last_call_ok E s\<close>: the
  last transport call made in state \<open>s\<close>, if there is one and it got a response, was not
  answered with 401 or 403. \<open>session_inv\<close> is the invariant of the session:
  authenticated implies \<open>last_call_ok\<close>.
\<close>

definition denied_at :: "env \<Rightarrow> nat \<Rightarrow> bool" where
  "denied_at E n =
     (case respond E n of Response r \<Rightarrow> status r = 401 \<or> status r = 403 | _ \<Rightarrow> False)"

definition last_call_ok :: "env \<Rightarrow> client \<Rightarrow> bool" where
  "last_call_ok E s = (case calls s of 0 \<Rightarrow> True | Suc n \<Rightarrow> \<not> denied_at E n)"

definition session_inv :: "env \<Rightarrow> client \<Rightarrow> bool" where
  "session_inv E s = (is_authenticated s \<longrightarrow> last_call_ok E s)"

section \<open>Example inputs\<close>

text \<open>A response with the given status and no auth cookie, and a script from a list.\<close>

definition plain :: "int \<Rightarrow> response" where
  "plain st = \<lparr>status = st, content_type = ''application/json'', auth_cookie = None,
               history = 0, body = JNull\<rparr>"

definition scripted :: "outcome list \<Rightarrow> env" where
  "scripted xs =
     \<lparr>respond = (\<lambda>n. if n < length xs then xs ! n else TransportClientError),
      latency = (\<lambda>n. 0)\<rparr>"

definition alternating :: "int \<Rightarrow> int \<Rightarrow> env" where
  "alternating a b =
     \<lparr>respond = (\<lambda>n. Response (plain (if even n then a else b))), latency = (\<lambda>n. 0)\<rparr>"

text \<open>The client as \<^verbatim>\<open>__init__\<close> leaves it at time \<open>t\<close>, and the same after a login.\<close>

definition new_client :: "int \<Rightarrow> client" where
  "new_client t =
     \<lparr>username = ''user'', password = ''secret'', null_cookie_count = 0, next_login = t,
      is_authenticated = False, hdr_content_type = None, now = t, calls = 0\<rparr>"

definition logged_in :: "int \<Rightarrow> client" where
  "logged_in t = (new_client t)\<lparr>is_authenticated := True,
     hdr_content_type := Some ''application/json''\<rparr>"


text \<open>
  A site that answers every call with status 200 and an empty auth cookie, one
  millisecond after the call; a 401 page that is not JSON.
\<close>

definition null_cookie_site :: env where
  "null_cookie_site =
     \<lparr>respond = (\<lambda>n. Response ((plain 200)\<lparr>auth_cookie := Some ''''\<rparr>)),
      latency = (\<lambda>n. 1000)\<rparr>"

definition denied :: response where
  "denied = \<lparr>status = 401, content_type = ''text/html'', auth_cookie = None,
             history = 0, body = JNull\<rparr>"

text \<open>Two devices, two refresh methods, a snapshot and a coordinator around a client.\<close>

definition thermostat :: device where
  "thermostat = \<lparr>deviceid = 1, name = ''Hall''\<rparr>"


definition always_alive :: refresh_fn where
  "always_alive d s = (s, Inr True)"


definition last_snapshot :: snapshot where
  "last_snapshot = [1 \<mapsto> \<lparr>device = thermostat, available = True\<rparr>]"

definition coordinator_with :: "client \<Rightarrow> int \<Rightarrow> coordinator" where
  "coordinator_with s n =
     \<lparr>client = s, consecutive_errors = n, max_consecutive_errors = 5,
      data = Some last_snapshot, restarts = 0\<rparr>"

section \<open>Transport calls and results of the retrying executor\<close>

lemma session_call_calls: "calls (fst (session_call E s)) = Suc (calls s)"
  by (simp add: session_call_def)

lemma set_null_count_calls: "calls (set_null_count s) = calls s"
  by (simp add: set_null_count_def Let_def)

lemma login_calls_le: "calls (fst (login E s)) \<le> calls s + 2"
  by (auto simp: login_def login_body_def convert_errors_def Let_def session_call_def
      set_null_count_calls split: outcome.splits prod.splits sum.splits)

lemma login_calls_ge: "calls s \<le> calls (fst (login E s))"
  by (auto simp: login_def login_body_def convert_errors_def Let_def session_call_def
      set_null_count_calls split: outcome.splits prod.splits sum.splits)

lemma login_errors:
  "snd (login E s) = Inl e \<Longrightarrow> e \<in> {APIRateLimited, AuthError, ConnectionError, OtherException}"
  by (auto simp: login_def login_body_def convert_errors_def Let_def session_call_def
      split: outcome.splits prod.splits sum.splits if_splits)

lemma ensure_calls_le: "calls (fst (ensure_authenticated E s)) \<le> calls s + 2"
  using login_calls_le [of E s] by (simp add: ensure_authenticated_def)

lemma ensure_errors:
  "snd (ensure_authenticated E s) = Inl e \<Longrightarrow>
     e \<in> {APIRateLimited, AuthError, ConnectionError, OtherException}"
  using login_errors [of E s e] by (simp add: ensure_authenticated_def split: if_splits)

lemma request_json_calls: "calls (fst (request_json E s)) = Suc (calls s)"
  by (auto simp: request_json_def session_call_def split: outcome.splits)

lemma backoff_sleep_calls: "calls (backoff_sleep r a s) = calls s"
  by (simp add: backoff_sleep_def)

lemma handle_error_calls_le:
  "calls (fst (handle_error E r a le s e)) \<le> calls s + 2"
  using login_calls_le [of E "s\<lparr>is_authenticated := False\<rparr>"]
  by (auto simp: handle_error_def backoff_sleep_calls split: prod.splits sum.splits)

lemma retry_loop_calls:
  "calls (fst (retry_loop E r le as s)) \<le> calls s + 5 * length as"
proof (induction as arbitrary: le s)
  case Nil
  then show ?case by simp
next
  case (Cons a as)
  obtain s1 r1 where e: "ensure_authenticated E s = (s1, r1)" by (cases "ensure_authenticated E s")
  have c1: "calls s1 \<le> calls s + 2" using ensure_calls_le [of E s] e by simp
  show ?case
  proof (cases r1)
    case (Inl ex)
    obtain s2 r2 where h: "handle_error E r a le s1 ex = (s2, r2)"
      by (cases "handle_error E r a le s1 ex")
    have c2: "calls s2 \<le> calls s1 + 2" using handle_error_calls_le [of E r a le s1 ex] h by simp
    show ?thesis
    proof (cases r2)
      case (Inl x)
      then show ?thesis using e \<open>r1 = Inl ex\<close> h c1 c2 by simp
    next
      case (Inr le')
      then show ?thesis using e \<open>r1 = Inl ex\<close> h c1 c2 Cons.IH [of le' s2] by simp
    qed
  next
    case (Inr u)
    obtain s2 r2 where q: "request_json E s1 = (s2, r2)" by (cases "request_json E s1")
    have c2: "calls s2 = Suc (calls s1)" using request_json_calls [of E s1] q by simp
    show ?thesis
    proof (cases r2)
      case (Inr v)
      then show ?thesis using e \<open>r1 = Inr u\<close> q c1 c2 by simp
    next
      case (Inl ex)
      obtain s3 r3 where h: "handle_error E r a le s2 ex = (s3, r3)"
        by (cases "handle_error E r a le s2 ex")
      have c3: "calls s3 \<le> calls s2 + 2" using handle_error_calls_le [of E r a le s2 ex] h by simp
      show ?thesis
      proof (cases r3)
        case (Inl x)
        then show ?thesis using e \<open>r1 = Inr u\<close> q \<open>r2 = Inl ex\<close> h c1 c2 c3 by simp
      next
        case (Inr le')
        then show ?thesis
          using e \<open>r1 = Inr u\<close> q \<open>r2 = Inl ex\<close> h c1 c2 c3 Cons.IH [of le' s3] by simp
      qed
    qed
  qed
qed


lemma handle_error_continue:
  "handle_error E r a le s e = (s', Inr le') \<Longrightarrow>
     le' = le \<or> le' \<in> Some ` {AuthError, APIRateLimited, ServiceUnavailable, ConnectionError}"
  by (auto simp: handle_error_def split: prod.splits sum.splits if_splits)

lemma handle_error_raise:
  "handle_error E r a le s e = (s', Inl x) \<Longrightarrow>
     e \<in> {APIRateLimited, AuthError, ConnectionError, OtherException, ServiceUnavailable,
           UnexpectedResponse, ClientError, UnauthorizedError} \<Longrightarrow>
     x \<in> {AuthError, APIRateLimited, ConnectionError, ServiceUnavailable, UnexpectedResponse,
           SomeComfortError, ClientError, OtherException}"
  using login_errors [of E "s\<lparr>is_authenticated := False\<rparr>"]
  by (auto simp: handle_error_def split: prod.splits sum.splits if_splits)

lemma request_json_errors:
  "snd (request_json E s) = Inl e \<Longrightarrow>
     e \<in> {ClientError, OtherException, UnauthorizedError, ServiceUnavailable, UnexpectedResponse}"
  by (auto simp: request_json_def session_call_def split: outcome.splits if_splits)

lemma request_json_ok:
  "request_json E s = (s', Inr v) \<Longrightarrow> answered_200 E s' v"
  by (auto simp: request_json_def session_call_def answered_200_def reply_of_def
      split: outcome.splits if_splits)

lemma retry_loop_result:
  "le = None \<or> le \<in> Some ` {AuthError, APIRateLimited, ServiceUnavailable, ConnectionError} \<Longrightarrow>
   retry_loop E r le as s = (s', res) \<Longrightarrow>
   (case res of Inr v \<Rightarrow> answered_200 E s' v | Inl e \<Rightarrow> e \<in> terminal_errors)"
proof (induction as arbitrary: le s)
  case Nil
  then show ?case by (auto simp: terminal_errors_def)
next
  case (Cons a as)
  obtain s1 r1 where e: "ensure_authenticated E s = (s1, r1)" by (cases "ensure_authenticated E s")
  show ?case
  proof (cases r1)
    case (Inl ex)
    have ex: "ex \<in> {APIRateLimited, AuthError, ConnectionError, OtherException}"
      using ensure_errors [of E s ex] e Inl by simp
    obtain s2 r2 where h: "handle_error E r a le s1 ex = (s2, r2)"
      by (cases "handle_error E r a le s1 ex")
    show ?thesis
    proof (cases r2)
      case (Inl x)
      have "x \<in> terminal_errors" unfolding terminal_errors_def
        using handle_error_raise [of E r a le s1 ex s2 x] h Inl ex by blast
      then show ?thesis using e \<open>r1 = Inl ex\<close> h Inl Cons.prems(2) by auto
    next
      case (Inr le')
      have "le' = None \<or> le' \<in> Some ` {AuthError, APIRateLimited, ServiceUnavailable, ConnectionError}"
        using handle_error_continue [of E r a le s1 ex s2 le'] h Inr Cons.prems(1) by blast
      moreover have "retry_loop E r le' as s2 = (s', res)"
        using e \<open>r1 = Inl ex\<close> h Inr Cons.prems(2) by simp
      ultimately show ?thesis by (rule Cons.IH)
    qed
  next
    case (Inr u)
    obtain s2 r2 where q: "request_json E s1 = (s2, r2)" by (cases "request_json E s1")
    show ?thesis
    proof (cases r2)
      case (Inr v)
      then show ?thesis
        using e \<open>r1 = Inr u\<close> q request_json_ok [of E s1 s2 v] Cons.prems(2) by auto
    next
      case (Inl ex)
      have ex: "ex \<in> {ClientError, OtherException, UnauthorizedError, ServiceUnavailable, UnexpectedResponse}"
        using request_json_errors [of E s1 ex] q Inl by simp
      obtain s3 r3 where h: "handle_error E r a le s2 ex = (s3, r3)"
        by (cases "handle_error E r a le s2 ex")
      show ?thesis
      proof (cases r3)
        case (Inl x)
        have "x \<in> terminal_errors" unfolding terminal_errors_def
          using handle_error_raise [of E r a le s2 ex s3 x] h Inl ex by blast
        then show ?thesis using e \<open>r1 = Inr u\<close> q \<open>r2 = Inl ex\<close> h Inl Cons.prems(2) by auto
      next
        case (Inr le')
        have "le' = None \<or> le' \<in> Some ` {AuthError, APIRateLimited, ServiceUnavailable, ConnectionError}"
          using handle_error_continue [of E r a le s2 ex s3 le'] h Inr Cons.prems(1) by blast
        moreover have "retry_loop E r le' as s2' = (s', res)" if "s2' = s3" for s2'
          using that e \<open>r1 = Inr u\<close> q \<open>r2 = Inl ex\<close> h Inr Cons.prems(2) by simp
        ultimately show ?thesis using Cons.IH [of le' s3] by simp
      qed
    qed
  qed
qed

text \<open>
  C1 (as amended). For every script of transport outcomes, every retry count and every
  client state, \<open>request_json_with_retry\<close> returns: it either returns the reply of a
  response with status 200, the answer to its last transport call, or fails with one of
  the terminal errors, never with \<open>UnauthorizedError\<close>. It makes at most five transport
  calls for each attempt (two for the login of \<open>ensure_authenticated\<close>, the request, two
  for the login after an \<open>UnauthorizedError\<close>), so at most \<open>5 * retries\<close> in all.
\<close>

theorem request_json_with_retry_calls_and_result:
  "calls (fst (request_json_with_retry E retries s)) \<le> calls s + 5 * nat retries
   \<and> (case snd (request_json_with_retry E retries s) of
        Inr v \<Rightarrow> answered_200 E (fst (request_json_with_retry E retries s)) v
      | Inl e \<Rightarrow> e \<in> terminal_errors)"
proof -
  obtain s' res where r: "retry_loop E retries None [0..<nat retries] s = (s', res)"
    by (cases "retry_loop E retries None [0..<nat retries] s")
  have "case res of Inr v \<Rightarrow> answered_200 E s' v | Inl e \<Rightarrow> e \<in> terminal_errors"
    using retry_loop_result [OF _ r] by simp
  moreover have "calls s' \<le> calls s + 5 * nat retries"
    using retry_loop_calls [of E retries None "[0..<nat retries]" s] r by simp
  ultimately show ?thesis
    by (simp add: request_json_with_retry_def r split: sum.splits)
qed

lemma upt_3: "[0..<3] = [0, Suc 0, 2]"
  by (simp add: upt_rec)

text \<open>
  C1 as stated fails: on a logged-in client whose transport answers 401, 200, 401, 200,
  401 the executor with three attempts makes five transport calls (the request, then two
  logins of two calls each) and fails with \<open>AuthError\<close>.
\<close>

theorem alternating_401_200_exceeds_max_attempts:
  "snd (request_json_with_retry (alternating 401 200) DEFAULT_RETRY_COUNT (logged_in 0))
     = Inl AuthError
   \<and> calls (fst (request_json_with_retry (alternating 401 200) DEFAULT_RETRY_COUNT (logged_in 0)))
       = 5
   \<and> \<not> calls (fst (request_json_with_retry (alternating 401 200) DEFAULT_RETRY_COUNT (logged_in 0)))
         \<le> nat DEFAULT_RETRY_COUNT"
  by (simp add: request_json_with_retry_def DEFAULT_RETRY_COUNT_def upt_3 alternating_def
      logged_in_def new_client_def plain_def ensure_authenticated_def request_json_def
      session_call_def handle_error_def login_def login_body_def convert_errors_def
      set_null_count_def backoff_sleep_def MAX_LOGIN_ATTEMPTS_def RETRY_BACKOFF_BASE_def Let_def)

section \<open>Classification of a single request\<close>

lemma request_json_response:
  assumes "respond E (calls s) = Response resp"
  shows "snd (request_json E s) =
     (if status resp = 200
         \<and> (content_type resp = ''application/json''
            \<or> content_type resp = ''application/octet-stream'')
      then Inr (reply_of resp)
      else if status resp = 401 \<or> status resp = 403 then Inl UnauthorizedError
      else if status resp = 500 \<or> status resp = 502 \<or> status resp = 503 \<or> 0 < history resp
      then Inl ServiceUnavailable
      else Inl UnexpectedResponse)"
  using assms by (simp add: request_json_def session_call_def reply_of_def)

text \<open>
  C4. A response is classified as the claim says (lemma \<open>request_json_response\<close>), but
  \<^verbatim>\<open>_request_json\<close> does not carry the decorator \<^verbatim>\<open>_convert_errors\<close> that \<^verbatim>\<open>login\<close> and
  \<^verbatim>\<open>discover\<close> carry: when the transport raises \<^verbatim>\<open>aiohttp.ClientError\<close>, that exception
  leaves \<open>request_json\<close> as it is, no clause of the retry loop catches it, and the caller
  of the executor sees it after one transport call.
\<close>

theorem request_json_client_error_not_converted:
  "snd (request_json (scripted [TransportClientError]) (logged_in 0)) = Inl ClientError
   \<and> snd (request_json_with_retry (scripted [TransportClientError]) DEFAULT_RETRY_COUNT
            (logged_in 0)) = Inl ClientError
   \<and> calls (fst (request_json_with_retry (scripted [TransportClientError]) DEFAULT_RETRY_COUNT
            (logged_in 0))) = 1"
  by (simp add: request_json_with_retry_def DEFAULT_RETRY_COUNT_def upt_3 scripted_def
      logged_in_def new_client_def plain_def ensure_authenticated_def request_json_def
      session_call_def handle_error_def)

section \<open>Errors that surface before the attempts are used up\<close>

text \<open>
  C5. The login made after an \<open>UnauthorizedError\<close> runs inside the handler, where only
  \<open>AuthError\<close> and \<open>APIRateLimited\<close> are caught. On a logged-in client whose request is
  answered 401 and whose login is answered 500, the \<open>ConnectionError\<close> of that login
  leaves the executor in the first of three attempts, after two transport calls,
  although the transport would have answered 200 from then on.
\<close>

theorem relogin_connection_error_surfaces_at_once:
  "snd (request_json_with_retry
          (scripted [Response (plain 401), Response (plain 500), Response (plain 200),
                     Response (plain 200), Response (plain 200)])
          DEFAULT_RETRY_COUNT (logged_in 0)) = Inl ConnectionError
   \<and> calls (fst (request_json_with_retry
          (scripted [Response (plain 401), Response (plain 500), Response (plain 200),
                     Response (plain 200), Response (plain 200)])
          DEFAULT_RETRY_COUNT (logged_in 0))) = 2"
  by (simp add: request_json_with_retry_def DEFAULT_RETRY_COUNT_def upt_3 scripted_def
      logged_in_def new_client_def plain_def ensure_authenticated_def request_json_def
      session_call_def handle_error_def login_def login_body_def convert_errors_def Let_def)

text \<open>The same error from the login of \<open>ensure_authenticated\<close> is retried.\<close>

lemma ensure_login_connection_error_retried:
  "snd (request_json_with_retry
          (scripted [Response (plain 500), Response (plain 200), Response (plain 200),
                     Response (plain 200)])
          DEFAULT_RETRY_COUNT (new_client 0)) = Inr (Json JNull)"
  by (simp add: request_json_with_retry_def DEFAULT_RETRY_COUNT_def upt_3 scripted_def
      new_client_def plain_def ensure_authenticated_def request_json_def
      session_call_def handle_error_def login_def login_body_def convert_errors_def
      backoff_sleep_def Let_def)

section \<open>The rate-limit gate of login\<close>

lemma login_rate_limited:
  "now s < next_login s \<Longrightarrow>
   login E s = (s\<lparr>hdr_content_type := Some ''application/x-www-form-urlencoded''\<rparr>,
                Inl APIRateLimited)"
  by (simp add: login_def login_body_def convert_errors_def Let_def)

text \<open>
  C9. When the clock is before \<open>next_login\<close>, \<open>login\<close> fails with \<open>APIRateLimited\<close> and
  makes no transport call; the credentials, the authentication flag, the null-cookie
  counter, the gate and the clock are as before. The one thing written is the
  \<^verbatim>\<open>Content-Type\<close> entry of the request headers, set before the gate is tested.
\<close>

theorem login_before_next_login:
  assumes "now s < next_login s"
  shows "snd (login E s) = Inl APIRateLimited
       \<and> calls (fst (login E s)) = calls s
       \<and> fst (login E s) = s\<lparr>hdr_content_type := Some ''application/x-www-form-urlencoded''\<rparr>
       \<and> is_authenticated (fst (login E s)) = is_authenticated s
       \<and> next_login (fst (login E s)) = next_login s
       \<and> null_cookie_count (fst (login E s)) = null_cookie_count s
       \<and> username (fst (login E s)) = username s
       \<and> password (fst (login E s)) = password s
       \<and> now (fst (login E s)) = now s"
  using login_rate_limited [OF assms, of E] by simp

theorem login_before_next_login_witness:
  "now ((new_client 0)\<lparr>next_login := 5\<rparr>) < next_login ((new_client 0)\<lparr>next_login := 5\<rparr>)
   \<and> snd (login (alternating 200 200) ((new_client 0)\<lparr>next_login := 5\<rparr>)) = Inl APIRateLimited
   \<and> calls (fst (login (alternating 200 200) ((new_client 0)\<lparr>next_login := 5\<rparr>))) = 0"
proof -
  have h: "now ((new_client 0)\<lparr>next_login := 5\<rparr>) < next_login ((new_client 0)\<lparr>next_login := 5\<rparr>)"
    by (simp add: new_client_def)
  show ?thesis
    using h login_before_next_login [OF h, of "alternating 200 200"]
    by (simp add: new_client_def)
qed

section \<open>The cookie check of the verification step\<close>

lemma login_verification:
  assumes "\<not> now s < next_login s"
    and "respond E (calls s) = Response r1" and "status r1 = 200"
    and "respond E (Suc (calls s)) = Response r2"
  shows "login E s =
    (let s3 = s\<lparr>hdr_content_type := Some ''application/json'',
                 now := now s + int (latency E (calls s)) + int (latency E (Suc (calls s))),
                 calls := Suc (Suc (calls s))\<rparr>
     in if auth_cookie r2 = Some '''' \<or> status r2 = 401 then (set_null_count s3, Inl AuthError)
        else if status r2 \<noteq> 200 then (s3, Inl ConnectionError)
        else (s3\<lparr>null_cookie_count := 0, is_authenticated := True\<rparr>, Inr ()))"
  using assms
  by (simp add: login_def login_body_def convert_errors_def session_call_def Let_def)

text \<open>
  C6 (as amended). Take a login that passes the gate and whose first step is answered
  with status 200. If the verification response carries the auth cookie with an empty
  value, whatever its status, \<open>login\<close> fails with \<open>AuthError\<close>, adds one to the null-cookie
  counter, clears the authentication flag and starts the cooldown when the counter
  reaches \<open>MAX_LOGIN_ATTEMPTS\<close>: state and result are the ones a 401 at the verification
  step gives. If the verification response has status 200 and no auth cookie at all,
  \<open>login\<close> succeeds: the counter is reset and the flag is set.
\<close>

theorem login_empty_or_missing_cookie:
  assumes "\<not> now s < next_login s"
    and "respond E (calls s) = Response r1" and "status r1 = 200"
    and "respond E (Suc (calls s)) = Response r2"
  shows "(auth_cookie r2 = Some '''' \<longrightarrow>
           snd (login E s) = Inl AuthError
         \<and> null_cookie_count (fst (login E s)) = null_cookie_count s + 1
         \<and> \<not> is_authenticated (fst (login E s))
         \<and> next_login (fst (login E s)) =
             (if null_cookie_count s + 1 \<ge> MAX_LOGIN_ATTEMPTS
              then now (fst (login E s)) + MIN_LOGIN_TIME else next_login s)
         \<and> login E s =
             login (E\<lparr>respond := (respond E)(Suc (calls s) := Response (plain 401))\<rparr>) s)
       \<and> (auth_cookie r2 = None \<and> status r2 = 200 \<longrightarrow>
           snd (login E s) = Inr ()
         \<and> null_cookie_count (fst (login E s)) = 0
         \<and> is_authenticated (fst (login E s))
         \<and> next_login (fst (login E s)) = next_login s)"
proof -
  let ?E = "E\<lparr>respond := (respond E)(Suc (calls s) := Response (plain 401))\<rparr>"
  have a: "respond ?E (calls s) = Response r1" "respond ?E (Suc (calls s)) = Response (plain 401)"
    "latency ?E = latency E"
    using assms(2) by simp_all
  have "auth_cookie r2 = Some '''' \<Longrightarrow>
           snd (login E s) = Inl AuthError
         \<and> null_cookie_count (fst (login E s)) = null_cookie_count s + 1
         \<and> \<not> is_authenticated (fst (login E s))
         \<and> next_login (fst (login E s)) =
             (if null_cookie_count s + 1 \<ge> MAX_LOGIN_ATTEMPTS
              then now (fst (login E s)) + MIN_LOGIN_TIME else next_login s)
         \<and> login E s = login ?E s"
    using login_verification [OF assms] login_verification [OF assms(1) a(1) assms(3) a(2)] a(3)
    by (simp add: Let_def set_null_count_def plain_def)
  moreover have "auth_cookie r2 = None \<Longrightarrow> status r2 = 200 \<Longrightarrow>
           snd (login E s) = Inr ()
         \<and> null_cookie_count (fst (login E s)) = 0
         \<and> is_authenticated (fst (login E s))
         \<and> next_login (fst (login E s)) = next_login s"
    using login_verification [OF assms] by (simp add: Let_def)
  ultimately show ?thesis by blast
qed

theorem login_empty_or_missing_cookie_witness:
  "\<not> now (new_client 0) < next_login (new_client 0)
   \<and> respond null_cookie_site 0 = Response ((plain 200)\<lparr>auth_cookie := Some ''''\<rparr>)
   \<and> snd (login null_cookie_site (new_client 0)) = Inl AuthError
   \<and> null_cookie_count (fst (login null_cookie_site (new_client 0))) = 1
   \<and> \<not> is_authenticated (fst (login null_cookie_site (new_client 0)))
   \<and> respond (alternating 200 200) 1 = Response (plain 200)
   \<and> snd (login (alternating 200 200) (new_client 0)) = Inr ()"
proof -
  have g: "\<not> now (new_client 0) < next_login (new_client 0)"
    and n: "null_cookie_count (new_client 0) = 0" and c: "calls (new_client 0) = 0"
    by (simp_all add: new_client_def)
  have e0: "respond null_cookie_site (calls (new_client 0))
              = Response ((plain 200)\<lparr>auth_cookie := Some ''''\<rparr>)"
    and e1: "respond null_cookie_site (Suc (calls (new_client 0)))
              = Response ((plain 200)\<lparr>auth_cookie := Some ''''\<rparr>)"
    and st: "status ((plain 200)\<lparr>auth_cookie := Some ''''\<rparr>) = 200"
    and ck: "auth_cookie ((plain 200)\<lparr>auth_cookie := Some ''''\<rparr>) = Some ''''"
    by (simp_all add: null_cookie_site_def plain_def)
  have a0: "respond (alternating 200 200) (calls (new_client 0)) = Response (plain 200)"
    and a1: "respond (alternating 200 200) (Suc (calls (new_client 0))) = Response (plain 200)"
    and st2: "status (plain 200) = 200" and ck2: "auth_cookie (plain 200) = None"
    by (simp_all add: alternating_def plain_def)
  note t = login_empty_or_missing_cookie [OF g e0 st e1]
  have t1: "snd (login null_cookie_site (new_client 0)) = Inl AuthError"
    and t2: "null_cookie_count (fst (login null_cookie_site (new_client 0)))
               = null_cookie_count (new_client 0) + 1"
    and t3: "\<not> is_authenticated (fst (login null_cookie_site (new_client 0)))"
    using t ck by blast+
  have empty: "snd (login null_cookie_site (new_client 0)) = Inl AuthError
     \<and> null_cookie_count (fst (login null_cookie_site (new_client 0))) = 1
     \<and> \<not> is_authenticated (fst (login null_cookie_site (new_client 0)))"
    using t1 t2 t3 n by simp
  have missing: "snd (login (alternating 200 200) (new_client 0)) = Inr ()"
    using login_empty_or_missing_cookie [OF g a0 st2 a1] ck2 st2 by simp
  show ?thesis
    using g e0 a1 empty missing c by simp
qed

text \<open>
  C6 as stated fails for the missing cookie: on a new client, a login answered twice with
  status 200 and no auth cookie succeeds, with the flag set and the counter at 0.
\<close>

theorem login_missing_cookie_succeeds:
  "snd (login (alternating 200 200) (new_client 0)) = Inr ()
   \<and> is_authenticated (fst (login (alternating 200 200) (new_client 0)))
   \<and> null_cookie_count (fst (login (alternating 200 200) (new_client 0))) = 0
   \<and> respond (alternating 200 200) 1 = Response (plain 200)
   \<and> status (plain 200) = 200 \<and> auth_cookie (plain 200) = None"
  by (simp add: alternating_def new_client_def plain_def login_def login_body_def
      convert_errors_def session_call_def Let_def)

section \<open>The cooldown after three empty cookies\<close>

lemma empty_login_step:
  assumes "\<not> now s < next_login s" and "empty_cookie_login E (calls s)"
  shows "login E s =
     (set_null_count (s\<lparr>hdr_content_type := Some ''application/json'',
                 now := now s + int (latency E (calls s)) + int (latency E (Suc (calls s))),
                 calls := Suc (Suc (calls s))\<rparr>), Inl AuthError)"
proof -
  obtain r1 r2 where "respond E (calls s) = Response r1" "status r1 = 200"
    "respond E (Suc (calls s)) = Response r2" "auth_cookie r2 = Some ''''"
    using assms(2) by (auto simp: empty_cookie_login_def split: outcome.splits)
  then show ?thesis using login_verification [OF assms(1), of E r1 r2] by (simp add: Let_def)
qed

text \<open>
  C8. Start with the null-cookie counter at 0 and the gate open, and let three logins in
  a row each end with an empty auth cookie. Each fails with \<open>AuthError\<close>; after the third
  the counter is 3 and \<open>next_login\<close> is the time of that failure plus \<open>MIN_LOGIN_TIME\<close>
  (ten minutes). A fourth login at any time before \<open>next_login\<close> fails with
  \<open>APIRateLimited\<close> and makes no transport call.
\<close>

theorem cooldown_after_three_empty_cookies:
  assumes "null_cookie_count s0 = 0" and "next_login s0 \<le> now s0"
    and "empty_cookie_login E (calls s0)"
    and "empty_cookie_login E (calls s0 + 2)"
    and "empty_cookie_login E (calls s0 + 4)"
  shows "snd (login E s0) = Inl AuthError
       \<and> snd (login E (after_logins E 1 s0)) = Inl AuthError
       \<and> snd (login E (after_logins E 2 s0)) = Inl AuthError
       \<and> null_cookie_count (after_logins E 3 s0) = 3
       \<and> calls (after_logins E 3 s0) = calls s0 + 6
       \<and> next_login (after_logins E 3 s0) = now (after_logins E 3 s0) + MIN_LOGIN_TIME
       \<and> (\<forall>t. t < next_login (after_logins E 3 s0) \<longrightarrow>
             snd (login E ((after_logins E 3 s0)\<lparr>now := t\<rparr>)) = Inl APIRateLimited
           \<and> calls (fst (login E ((after_logins E 3 s0)\<lparr>now := t\<rparr>)))
               = calls (after_logins E 3 s0))"
proof -
  define s1 where "s1 = fst (login E s0)"
  define s2 where "s2 = fst (login E s1)"
  define s3 where "s3 = fst (login E s2)"
  have l0: "login E s0 = (set_null_count (s0\<lparr>hdr_content_type := Some ''application/json'',
                 now := now s0 + int (latency E (calls s0)) + int (latency E (Suc (calls s0))),
                 calls := Suc (Suc (calls s0))\<rparr>), Inl AuthError)"
    using empty_login_step [of s0 E] assms(2,3) by simp
  have p1: "null_cookie_count s1 = 1" "next_login s1 = next_login s0" "now s0 \<le> now s1"
    "calls s1 = calls s0 + 2"
    using assms(1) by (simp_all add: s1_def l0 set_null_count_def MAX_LOGIN_ATTEMPTS_def Let_def)
  have l1: "login E s1 = (set_null_count (s1\<lparr>hdr_content_type := Some ''application/json'',
                 now := now s1 + int (latency E (calls s1)) + int (latency E (Suc (calls s1))),
                 calls := Suc (Suc (calls s1))\<rparr>), Inl AuthError)"
    using empty_login_step [of s1 E] assms(2,4) p1 by simp
  have p2: "null_cookie_count s2 = 2" "next_login s2 = next_login s0" "now s0 \<le> now s2"
    "calls s2 = calls s0 + 4"
    using p1 by (simp_all add: s2_def l1 set_null_count_def MAX_LOGIN_ATTEMPTS_def Let_def)
  have l2: "login E s2 = (set_null_count (s2\<lparr>hdr_content_type := Some ''application/json'',
                 now := now s2 + int (latency E (calls s2)) + int (latency E (Suc (calls s2))),
                 calls := Suc (Suc (calls s2))\<rparr>), Inl AuthError)"
    using empty_login_step [of s2 E] assms(2,5) p2 by simp
  have p3: "null_cookie_count s3 = 3" "next_login s3 = now s3 + MIN_LOGIN_TIME"
    "calls s3 = calls s0 + 6"
    using p2 by (simp_all add: s3_def l2 set_null_count_def MAX_LOGIN_ATTEMPTS_def Let_def)
  have a: "after_logins E 1 s0 = s1" "after_logins E 2 s0 = s2" "after_logins E 3 s0 = s3"
    by (simp_all add: s1_def s2_def s3_def numeral_2_eq_2 numeral_3_eq_3)
  have gate: "snd (login E (s3\<lparr>now := t\<rparr>)) = Inl APIRateLimited
           \<and> calls (fst (login E (s3\<lparr>now := t\<rparr>))) = calls s3" if "t < next_login s3" for t
    using login_rate_limited [of "s3\<lparr>now := t\<rparr>" E] that by simp
  show ?thesis
    unfolding a using l0 l1 l2 p3 gate by simp
qed

lemma null_cookie_site_empty: "empty_cookie_login null_cookie_site n"
  by (simp add: empty_cookie_login_def null_cookie_site_def plain_def)

lemma after_three_null_cookie_logins:
  "after_logins null_cookie_site 3 (new_client 0) =
     (new_client 0)\<lparr>null_cookie_count := 3, next_login := 600006000,
        hdr_content_type := Some ''application/json'', now := 6000, calls := 6\<rparr>"
  by (simp add: numeral_3_eq_3 new_client_def null_cookie_site_def plain_def login_def
      login_body_def convert_errors_def session_call_def set_null_count_def
      MAX_LOGIN_ATTEMPTS_def MIN_LOGIN_TIME_def Let_def)

theorem cooldown_after_three_empty_cookies_witness:
  "null_cookie_count (new_client 0) = 0 \<and> next_login (new_client 0) \<le> now (new_client 0)
   \<and> empty_cookie_login null_cookie_site (calls (new_client 0))
   \<and> empty_cookie_login null_cookie_site (calls (new_client 0) + 2)
   \<and> empty_cookie_login null_cookie_site (calls (new_client 0) + 4)
   \<and> next_login (after_logins null_cookie_site 3 (new_client 0)) = 6000 + MIN_LOGIN_TIME
   \<and> (7000 :: int) < next_login (after_logins null_cookie_site 3 (new_client 0))
   \<and> snd (login null_cookie_site ((after_logins null_cookie_site 3 (new_client 0))\<lparr>now := 7000\<rparr>))
       = Inl APIRateLimited
   \<and> calls (fst (login null_cookie_site
        ((after_logins null_cookie_site 3 (new_client 0))\<lparr>now := 7000\<rparr>))) = 6"
proof -
  have h: "null_cookie_count (new_client 0) = 0" "next_login (new_client 0) \<le> now (new_client 0)"
    by (simp_all add: new_client_def)
  note t = cooldown_after_three_empty_cookies [OF h null_cookie_site_empty
      null_cookie_site_empty null_cookie_site_empty]
  have w: "(7000 :: int) < next_login (after_logins null_cookie_site 3 (new_client 0))"
    by (simp add: after_three_null_cookie_logins)
  have "snd (login null_cookie_site ((after_logins null_cookie_site 3 (new_client 0))\<lparr>now := 7000\<rparr>))
       = Inl APIRateLimited
   \<and> calls (fst (login null_cookie_site
        ((after_logins null_cookie_site 3 (new_client 0))\<lparr>now := 7000\<rparr>)))
      = calls (after_logins null_cookie_site 3 (new_client 0))"
    using t w by blast
  then show ?thesis
    using h w t null_cookie_site_empty
    by (simp add: after_three_null_cookie_logins MIN_LOGIN_TIME_def)
qed

section \<open>The authentication flag and the last transport call\<close>

lemma request_json_inv: "session_inv E (fst (request_json E s))"
  by (auto simp: session_inv_def last_call_ok_def denied_at_def request_json_def
      session_call_def split: outcome.splits)

lemma request_json_denied:
  "denied_at E (calls s) \<Longrightarrow> \<not> is_authenticated (fst (request_json E s))"
  by (auto simp: request_json_def session_call_def denied_at_def split: outcome.splits)

lemma request_json_flag:
  "is_authenticated (fst (request_json E s)) \<Longrightarrow> is_authenticated s"
  by (auto simp: request_json_def session_call_def split: outcome.splits if_splits)

lemma request_json_flag_falls:
  "is_authenticated s \<Longrightarrow> \<not> is_authenticated (fst (request_json E s)) \<Longrightarrow>
     denied_at E (calls s)"
  by (auto simp: request_json_def session_call_def denied_at_def
      split: outcome.splits if_splits)

lemma set_null_count_flag: "\<not> is_authenticated (set_null_count s)"
  by (simp add: set_null_count_def Let_def)

lemma login_flag_rises:
  "\<not> is_authenticated s \<Longrightarrow> is_authenticated (fst (login E s)) \<Longrightarrow>
     snd (login E s) = Inr () \<and> handshake_done E s \<and> calls (fst (login E s)) = calls s + 2"
  by (auto simp: login_def login_body_def convert_errors_def session_call_def Let_def
      set_null_count_flag handshake_done_def split: outcome.splits if_splits)

lemma login_inv: "\<not> is_authenticated s \<Longrightarrow> session_inv E (fst (login E s))"
  using login_flag_rises [of s E]
  by (auto simp: session_inv_def last_call_ok_def denied_at_def handshake_done_def
      split: outcome.splits)

lemma ensure_inv: "session_inv E s \<Longrightarrow> session_inv E (fst (ensure_authenticated E s))"
  using login_inv [of s E] by (simp add: ensure_authenticated_def)

lemma backoff_sleep_inv: "session_inv E (backoff_sleep r a s) = session_inv E s"
  by (simp add: backoff_sleep_def session_inv_def last_call_ok_def)

lemma handle_error_inv:
  "session_inv E s \<Longrightarrow> session_inv E (fst (handle_error E r a le s e))"
  using login_inv [of "s\<lparr>is_authenticated := False\<rparr>" E]
  by (auto simp: handle_error_def backoff_sleep_inv split: prod.splits sum.splits)

lemma retry_loop_inv:
  "session_inv E s \<Longrightarrow> session_inv E (fst (retry_loop E r le as s))"
proof (induction as arbitrary: le s)
  case Nil
  then show ?case by simp
next
  case (Cons a as)
  obtain s1 r1 where e: "ensure_authenticated E s = (s1, r1)"
    by (cases "ensure_authenticated E s")
  have i1: "session_inv E s1" using ensure_inv [OF Cons.prems] e by simp
  show ?case
  proof (cases r1)
    case (Inl ex)
    obtain s2 r2 where h: "handle_error E r a le s1 ex = (s2, r2)"
      by (cases "handle_error E r a le s1 ex")
    have i2: "session_inv E s2" using handle_error_inv [OF i1, of r a le ex] h by simp
    show ?thesis using e Inl h i2 Cons.IH [OF i2] by (cases r2) simp_all
  next
    case (Inr u)
    obtain s2 r2 where q: "request_json E s1 = (s2, r2)" by (cases "request_json E s1")
    have i2: "session_inv E s2" using request_json_inv [of E s1] q by simp
    show ?thesis
    proof (cases r2)
      case (Inr v)
      then show ?thesis using e \<open>r1 = Inr u\<close> q i2 by simp
    next
      case (Inl ex)
      obtain s3 r3 where h: "handle_error E r a le s2 ex = (s3, r3)"
        by (cases "handle_error E r a le s2 ex")
      have i3: "session_inv E s3" using handle_error_inv [OF i2, of r a le ex] h by simp
      show ?thesis using e \<open>r1 = Inr u\<close> q Inl h i3 Cons.IH [OF i3] by (cases r3) simp_all
    qed
  qed
qed

text \<open>
  C7 (as amended). Inside the request executor the invariant holds and the flag moves
  as the claim says. After \<open>request_json\<close> the session satisfies \<open>session_inv\<close>;
  \<open>request_json\<close> clears the flag on every 401 or 403, clears it on nothing else and
  never sets it. A \<open>login\<close> on an unauthenticated session sets the flag only by
  completing both steps of the handshake with status 200, and leaves the invariant
  true. \<open>ensure_authenticated\<close> and the whole of \<open>request_json_with_retry\<close> keep the
  invariant. Nothing is said here about calls made on the session without
  \<open>request_json\<close>, nor about a \<open>login\<close> on a session whose flag is set.
\<close>

theorem session_flag_transitions:
  "session_inv E (fst (request_json E s))
   \<and> (denied_at E (calls s) \<longrightarrow> \<not> is_authenticated (fst (request_json E s)))
   \<and> (is_authenticated s \<and> \<not> is_authenticated (fst (request_json E s))
        \<longrightarrow> denied_at E (calls s))
   \<and> (is_authenticated (fst (request_json E s)) \<longrightarrow> is_authenticated s)
   \<and> (\<not> is_authenticated s \<and> is_authenticated (fst (login E s)) \<longrightarrow>
        snd (login E s) = Inr () \<and> handshake_done E s
        \<and> calls (fst (login E s)) = calls s + 2)
   \<and> (\<not> is_authenticated s \<longrightarrow> session_inv E (fst (login E s)))
   \<and> (session_inv E s \<longrightarrow> session_inv E (fst (ensure_authenticated E s)))
   \<and> (session_inv E s \<longrightarrow> session_inv E (fst (request_json_with_retry E retries s)))"
  using request_json_inv [of E s] request_json_denied [of E s] request_json_flag [of E s]
    request_json_flag_falls [of s E] login_flag_rises [of s E] login_inv [of s E]
    ensure_inv [of E s] retry_loop_inv [of E s retries None "[0..<nat retries]"]
  unfolding request_json_with_retry_def by blast

lemma login_200_200:
  "login (alternating 200 200) (new_client 0) =
     ((new_client 0)\<lparr>is_authenticated := True,
         hdr_content_type := Some ''application/json'', calls := 2\<rparr>, Inr ())"
  by (simp add: alternating_def new_client_def plain_def login_def login_body_def
      convert_errors_def session_call_def Let_def)

lemma request_200_logged_in:
  "request_json (alternating 200 200) (logged_in 0) = ((logged_in 0)\<lparr>calls := 1\<rparr>, Inr (Json JNull))"
  by (simp add: alternating_def logged_in_def new_client_def plain_def request_json_def
      session_call_def)

theorem session_flag_transitions_witness:
  "denied_at (alternating 401 200) (calls (logged_in 0))
   \<and> is_authenticated (logged_in 0)
   \<and> \<not> is_authenticated (fst (request_json (alternating 401 200) (logged_in 0)))
   \<and> is_authenticated (fst (request_json (alternating 200 200) (logged_in 0)))
   \<and> \<not> is_authenticated (new_client 0)
   \<and> is_authenticated (fst (login (alternating 200 200) (new_client 0)))
   \<and> handshake_done (alternating 200 200) (new_client 0)
   \<and> session_inv (alternating 401 200) (logged_in 0)
   \<and> session_inv (alternating 401 200)
        (fst (request_json_with_retry (alternating 401 200) DEFAULT_RETRY_COUNT (logged_in 0)))"
proof -
  have d: "denied_at (alternating 401 200) (calls (logged_in 0))"
    by (simp add: denied_at_def alternating_def logged_in_def new_client_def plain_def)
  have a: "is_authenticated (logged_in 0)" and n: "\<not> is_authenticated (new_client 0)"
    by (simp_all add: logged_in_def new_client_def)
  have i: "session_inv (alternating 401 200) (logged_in 0)"
    by (simp add: session_inv_def last_call_ok_def logged_in_def new_client_def)
  have up: "is_authenticated (fst (login (alternating 200 200) (new_client 0)))"
    by (simp add: login_200_200)
  have stay: "is_authenticated (fst (request_json (alternating 200 200) (logged_in 0)))"
    using a by (simp add: request_200_logged_in)
  note t1 = session_flag_transitions [of "alternating 401 200" "logged_in 0" DEFAULT_RETRY_COUNT]
  note t2 = session_flag_transitions [of "alternating 200 200" "new_client 0" DEFAULT_RETRY_COUNT]
  have "\<not> is_authenticated (fst (request_json (alternating 401 200) (logged_in 0)))"
    using t1 d by blast
  moreover have "handshake_done (alternating 200 200) (new_client 0)"
    using t2 n up by blast
  moreover have "session_inv (alternating 401 200)
        (fst (request_json_with_retry (alternating 401 200) DEFAULT_RETRY_COUNT (logged_in 0)))"
    using t1 i by blast
  ultimately show ?thesis using d a n i up stay by blast
qed

text \<open>
  C7 as stated fails. \<^verbatim>\<open>_get_locations\<close> posts on the session without \<^verbatim>\<open>_request_json\<close>
  and does not look at the status: on a logged-in client whose four page requests are
  all answered 401, the flag is still set afterwards although the last transport call
  returned 401.
\<close>

theorem get_locations_keeps_flag_on_401:
  "is_authenticated (fst (get_locations
       (scripted [Response denied, Response denied, Response denied, Response denied])
       (logged_in 0)))
   \<and> calls (fst (get_locations
       (scripted [Response denied, Response denied, Response denied, Response denied])
       (logged_in 0))) = 4
   \<and> respond (scripted [Response denied, Response denied, Response denied, Response denied]) 3
       = Response denied
   \<and> status denied = 401
   \<and> \<not> session_inv
         (scripted [Response denied, Response denied, Response denied, Response denied])
         (fst (get_locations
            (scripted [Response denied, Response denied, Response denied, Response denied])
            (logged_in 0)))"
  by (simp add: get_locations_def upt_rec scripted_def denied_def logged_in_def new_client_def
     ensure_authenticated_def session_call_def session_inv_def last_call_ok_def denied_at_def)

section \<open>Device failures inside a poll cycle\<close>





section \<open>Restarts of a poll cycle\<close>


section \<open>The threshold of consecutive errors\<close>

text \<open>
  C2 (as amended). When a cycle fails with \<open>ConnectionError\<close>, the counter goes up by
  one first and is compared with the threshold afterwards: the cycle raises
  \<open>UpdateFailed\<close> when the new count has reached the threshold and returns the previous
  snapshot otherwise. With threshold 5, the cycle that starts at 4 is the one that
  raises; the cycle that starts at 3 returns the previous snapshot and leaves the
  counter at 4.
\<close>

theorem connection_error_threshold:
  assumes "snd (refresh_phase E rf devices (client c)) = Inl ConnectionError"
  shows "map_option snd (async_update_data (Suc k) E rf devices c) =
           Some (if consecutive_errors c + 1 \<ge> max_consecutive_errors c
                 then Inl UpdateFailed else Inr (stale_data c))
       \<and> map_option (\<lambda>r. consecutive_errors (fst r))
           (async_update_data (Suc k) E rf devices c) = Some (consecutive_errors c + 1)"
proof -
  obtain s1 where p: "refresh_phase E rf devices (client c) = (s1, Inl ConnectionError)"
    using assms by (cases "refresh_phase E rf devices (client c)") simp
  show ?thesis using p by (simp add: async_update_data_def Let_def stale_data_def)
qed

lemma login_500:
  "snd (refresh_phase (alternating 500 500) always_alive [thermostat] (new_client 0))
     = Inl ConnectionError"
  by (simp add: refresh_phase_def ensure_authenticated_def new_client_def alternating_def
      plain_def login_def login_body_def convert_errors_def session_call_def Let_def)

theorem connection_error_threshold_witness:
  "snd (refresh_phase (alternating 500 500) always_alive [thermostat]
          (client (coordinator_with (new_client 0) 3))) = Inl ConnectionError
   \<and> map_option snd (async_update_data 1 (alternating 500 500) always_alive [thermostat]
        (coordinator_with (new_client 0) 3)) = Some (Inr last_snapshot)
   \<and> map_option (\<lambda>r. consecutive_errors (fst r))
       (async_update_data 1 (alternating 500 500) always_alive [thermostat]
          (coordinator_with (new_client 0) 3)) = Some 4"
proof -
  have h: "snd (refresh_phase (alternating 500 500) always_alive [thermostat]
             (client (coordinator_with (new_client 0) 3))) = Inl ConnectionError"
    using login_500 by (simp add: coordinator_with_def)
  show ?thesis
    using h connection_error_threshold [OF h, of 0]
    by (simp add: coordinator_with_def stale_data_def)
qed

text \<open>
  C2 as stated fails: with the counter at 4 and the threshold at 5, the cycle that fails
  with \<open>ConnectionError\<close> raises \<open>UpdateFailed\<close> itself and does not return the previous
  snapshot; the counter is 5 afterwards.
\<close>

theorem fifth_connection_error_is_fatal:
  "map_option snd (async_update_data 1 (alternating 500 500) always_alive [thermostat]
      (coordinator_with (new_client 0) 4)) = Some (Inl UpdateFailed)
   \<and> map_option (\<lambda>r. consecutive_errors (fst r))
       (async_update_data 1 (alternating 500 500) always_alive [thermostat]
          (coordinator_with (new_client 0) 4)) = Some 5
   \<and> stale_data (coordinator_with (new_client 0) 4) = last_snapshot"
  by (simp add: async_update_data_def refresh_phase_def ensure_authenticated_def
      coordinator_with_def new_client_def alternating_def plain_def login_def login_body_def
      convert_errors_def session_call_def Let_def stale_data_def)

end
